theory Spec2Isabelle
  imports Complex_Main
begin

section \<open>Python arithmetic that can raise\<close>

text \<open>
  The two scripts under \<open>SingleModeVisualizations\<close> compute with Python floats, which are
  modelled as real numbers: sums, products and quotients are exact.  The attributes of the
  solution object are taken to be Python floats.  An exception is a value \<open>Inl e\<close>; a
  script that does not catch it ends there.
  \<open>ConfigurationError\<close> is the error the constructor of \<open>SingleModeSolution\<close> reports,
  \<open>ValueError\<close> is what \<open>math.sqrt\<close> raises on a negative argument ("math domain error"),
  \<open>ZeroDivisionError\<close> is what \<open>/\<close> raises on a zero divisor of a Python float,
  \<open>OverflowError\<close> is what \<open>**\<close> raises when the power of a Python float is too large
  for a float.
\<close>

datatype error = ConfigurationError | ValueError | ZeroDivisionError | OverflowError

definition math_sqrt :: "real \<Rightarrow> error + real" where
  "math_sqrt v = (if v < 0 then Inl ValueError else Inr (sqrt v))"

definition truediv :: "real \<Rightarrow> real \<Rightarrow> error + real" where
  "truediv a b = (if b = 0 then Inl ZeroDivisionError else Inr (a / b))"

text \<open>
  \<open>v ** 2\<close> on a Python float.  The largest float is \<open>2^1024 - 2^971\<close>; a square from
  \<open>2^1024 - 2^970\<close> on rounds beyond it, and Python raises.
\<close>

definition float_overflow :: real where
  "float_overflow = 2 ^ 1024 - 2 ^ 970"

definition float_pow2 :: "real \<Rightarrow> error + real" where
  "float_pow2 v = (if float_overflow \<le> v ^ 2 then Inl OverflowError else Inr (v ^ 2))"

text \<open>
  A scalar is a Python float or, when NumPy computed it, a \<open>numpy.float64\<close>.  The two
  differ on a zero divisor: the Python float raises, the \<open>numpy.float64\<close> becomes
  \<open>inf\<close> or \<open>nan\<close> with a warning and the script goes on; \<open>NonFinite\<close> is that value.
  Adding a Python float to a \<open>numpy.float64\<close> gives a \<open>numpy.float64\<close>.
\<close>

datatype number = Float real | Float64 real | NonFinite

definition add_number :: "real \<Rightarrow> number \<Rightarrow> number" where
  "add_number a n =
     (case n of Float v \<Rightarrow> Float (a + v) | Float64 v \<Rightarrow> Float64 (a + v)
      | NonFinite \<Rightarrow> NonFinite)"

definition truediv_number :: "number \<Rightarrow> real \<Rightarrow> error + number" where
  "truediv_number n b =
     (case n of
        Float v \<Rightarrow> (if b = 0 then Inl ZeroDivisionError else Inr (Float (v / b)))
      | Float64 v \<Rightarrow> (if b = 0 then Inr NonFinite else Inr (Float64 (v / b)))
      | NonFinite \<Rightarrow> Inr NonFinite)"

definition and_then :: "error + 'a \<Rightarrow> ('a \<Rightarrow> error + 'b) \<Rightarrow> error + 'b" where
  "and_then r f = (case r of Inl e \<Rightarrow> Inl e | Inr v \<Rightarrow> f v)"

text \<open>
  \<open>np.linspace(start, stop, num)\<close> with the default \<open>endpoint=True\<close>: \<open>num\<close> samples,
  \<open>arange(0, num) * step + start\<close> with \<open>step = (stop - start) / (num - 1)\<close>, the last
  one overwritten by \<open>stop\<close> when \<open>num > 1\<close>.
\<close>

definition linspace :: "real \<Rightarrow> real \<Rightarrow> nat \<Rightarrow> real list" where
  "linspace start stop num =
     (let dv = num - 1;
          delta = stop - start;
          ys = (if 0 < dv then map (\<lambda>i. real i * (delta / real dv) + start) [0..<num]
                else map (\<lambda>i. real i * delta + start) [0..<num])
      in if 1 < num then butlast ys @ [stop] else ys)"

section \<open>The solution object\<close>

text \<open>
  The attributes and the one method of \<open>SingleModeSolution\<close> that the scripts read.
  \<open>delta_xs(t, y=None)\<close> takes the time and the optional transverse position and returns
  a complex displacement; applied to an array of positions it is applied to each of them.
  The class itself lives in \<open>LinearAnalysis/SingleMode.py\<close>, which the scripts import;
  its derived constants and its method are therefore fields of arbitrary value here.
\<close>

record SingleModeSolution =
  Nx :: real
  Ny :: real
  epsilon_k :: real
  R :: real
  M2 :: real
  a2 :: real
  rho1 :: real
  Lx :: real
  Ly :: real
  ky :: real
  omega :: real
  phi :: real
  longwavelength :: bool
  delta_xs :: "real \<Rightarrow> real option \<Rightarrow> complex"

text \<open>
  Modelled from the spec: the constructor \<open>SingleModeSolution(Nx, Ny, M1, epsilon_k, gamma)\<close>
  of \<open>LinearAnalysis/SingleMode.py\<close>, which is not among the source files.  The spec has it
  report a configuration error when \<open>M1 <= 1\<close>, or both mode numbers are zero, or
  \<open>gamma <= 1\<close>, before any constant is derived; otherwise the object holds the mode
  numbers and the amplitude it was given and the constants derived from the five inputs.
  How they are derived is the parameter \<open>derive\<close>.
\<close>

definition SingleModeSolution_init ::
  "(real \<Rightarrow> real \<Rightarrow> real \<Rightarrow> real \<Rightarrow> real \<Rightarrow> SingleModeSolution) \<Rightarrow>
   real \<Rightarrow> real \<Rightarrow> real \<Rightarrow> real \<Rightarrow> real \<Rightarrow> error + SingleModeSolution" where
  "SingleModeSolution_init derive nx ny m1 eps gam =
     (if m1 \<le> 1 \<or> (nx = 0 \<and> ny = 0) \<or> gam \<le> 1 then Inl ConfigurationError
      else Inr ((derive nx ny m1 eps gam)\<lparr>Nx := nx, Ny := ny, epsilon_k := eps\<rparr>))"

text \<open>Which mode number an axis is normalised by, and so labelled with.\<close>

datatype axis_label = Nx_label | Ny_label

section \<open>plot\_energy.py\<close>

definition energy_Ny :: real where
  "energy_Ny = 20"

definition energy_epsilon_k :: real where
  "energy_epsilon_k = 0.1"

definition energy_gamma :: real where
  "energy_gamma = 5 / 3"

definition energy_ratios :: "real list" where
  "energy_ratios = [0, 0.1, 0.2, 0.3, 0.4, 0.5, 0.6, 0.7, 0.8, 0.9, 1.0, 1.1, 1.2, 1.3]"

definition energy_Nxs :: "real list" where
  "energy_Nxs = map (\<lambda>r. r * energy_Ny) energy_ratios"

definition energy_M1s :: "real list" where
  "energy_M1s = [1.75, 2.25, 2.75]"

text \<open>Lines 73 to 79: the plot domain \<open>(x0, x1, y0, y1)\<close>.\<close>

definition energy_domain ::
  "SingleModeSolution \<Rightarrow> real \<Rightarrow> error + (real \<times> real \<times> real \<times> real)" where
  "energy_domain sim nx =
     (if energy_Ny = 0 then
        and_then (truediv (2 * Lx sim) nx) (\<lambda>x1.
        and_then (truediv (2 * Ly sim) nx) (\<lambda>y1. Inr (0, x1, 0, y1)))
      else
        and_then (truediv (2 * Lx sim) energy_Ny) (\<lambda>x1.
        and_then (truediv (2 * Ly sim) energy_Ny) (\<lambda>y1. Inr (0, x1, 0, y1))))"

text \<open>
  Lines 84 to 90: the largest displacement of the shock front.  Line 86 computes with the
  attributes alone: \<open>M2**2\<close> in the dividend, then \<open>M2**2\<close> and \<open>math.sqrt\<close> in the
  divisor, then the division.  Lines 88 and 90 return what \<open>np.abs\<close> returns, a
  \<open>numpy.float64\<close>.
\<close>

definition max_delta_xs :: "SingleModeSolution \<Rightarrow> error + number" where
  "max_delta_xs sim =
     (if longwavelength sim then
        (if Nx sim = 0 then
           and_then (float_pow2 (M2 sim)) (\<lambda>q.
           and_then (float_pow2 (M2 sim)) (\<lambda>q'.
           and_then (math_sqrt (1 - q')) (\<lambda>s.
           and_then (truediv (epsilon_k sim * R sim * q) (ky sim * s)) (\<lambda>m.
             Inr (Float m)))))
         else
           and_then (truediv (phi sim) (omega sim)) (\<lambda>tm.
             Inr (Float64 \<bar>Re (delta_xs sim tm None)\<bar>)))
      else Inr (Float64 \<bar>Re (delta_xs sim ((pi / 2) * omega sim) None)\<bar>))"

text \<open>Line 91: the time at which the fields are sampled.\<close>

definition energy_t :: "SingleModeSolution \<Rightarrow> real \<Rightarrow> error + number" where
  "energy_t sim x1 =
     and_then (max_delta_xs sim) (\<lambda>m. truediv_number (add_number x1 m) (M2 sim * a2 sim))"

text \<open>Lines 121 to 128: the factor applied to the grid handed to \<open>contourf\<close>.\<close>

definition energy_contour_scale :: "real \<Rightarrow> real" where
  "energy_contour_scale nx = (if energy_Ny = 0 then nx else energy_Ny)"

text \<open>Lines 143 to 152: the axis limits and the axis labels.\<close>

definition energy_axes ::
  "SingleModeSolution \<Rightarrow> real \<Rightarrow> real \<times> real \<times> real \<times> real \<Rightarrow>
   (real \<times> real) \<times> (real \<times> real) \<times> axis_label" where
  "energy_axes sim nx box =
     (case box of (x0, x1, y0, y1) \<Rightarrow>
        if Ny sim = 0 then ((nx * x0, nx * x1), (nx * y0, nx * y1), Nx_label)
        else ((energy_Ny * x0, energy_Ny * x1), (energy_Ny * y0, energy_Ny * y1), Ny_label))"

section \<open>plot\_perturbations.py\<close>

definition perturbations_Ny :: real where
  "perturbations_Ny = 20"

definition perturbations_epsilon_k :: real where
  "perturbations_epsilon_k = 0.1"

definition perturbations_gamma :: real where
  "perturbations_gamma = 5 / 3"

text \<open>Lines 61 and 62 replace the lists of lines 57 and 58.\<close>

definition perturbations_Nxs :: "real list" where
  "perturbations_Nxs = [0.2 * perturbations_Ny]"

definition perturbations_M1s :: "real list" where
  "perturbations_M1s = [1.75]"

text \<open>Lines 74 to 80: the plot domain \<open>(x0, x1, y0, y1)\<close>.\<close>

definition perturbations_domain ::
  "SingleModeSolution \<Rightarrow> real \<Rightarrow> error + (real \<times> real \<times> real \<times> real)" where
  "perturbations_domain sim nx =
     (if perturbations_Ny = 0 then
        and_then (truediv (2 * Lx sim) nx) (\<lambda>x1.
        and_then (truediv (2 * Ly sim) nx) (\<lambda>y1. Inr (0, x1, 0, y1)))
      else
        and_then (truediv (2 * Lx sim) perturbations_Ny) (\<lambda>x1.
        and_then (truediv (2 * Ly sim) perturbations_Ny) (\<lambda>y1. Inr (0, x1, 0, y1))))"

text \<open>Lines 86 and 87: the wanted position of the middle of the shock front, and the time.\<close>

definition perturbations_xs :: "real \<Rightarrow> real" where
  "perturbations_xs x1 = (2 / 3) * x1"

definition perturbations_t :: "SingleModeSolution \<Rightarrow> real \<Rightarrow> error + real" where
  "perturbations_t sim x1 = truediv (perturbations_xs x1) (M2 sim * a2 sim)"

text \<open>Lines 126 to 133: the factor applied to the grid handed to \<open>contourf\<close>.\<close>

definition perturbations_contour_scale :: "real \<Rightarrow> real" where
  "perturbations_contour_scale nx = (if perturbations_Ny = 0 then nx else perturbations_Ny)"

text \<open>Lines 136 and 137: the samples of the shock curve.\<close>

definition y_shock :: "real \<Rightarrow> real \<Rightarrow> real list" where
  "y_shock y0 y1 = linspace y0 y1 100"

definition x_shock :: "SingleModeSolution \<Rightarrow> real \<Rightarrow> real \<Rightarrow> real list \<Rightarrow> real list" where
  "x_shock sim xs t ys = map (\<lambda>y. xs * 1 + Re (delta_xs sim t (Some y))) ys"

text \<open>Lines 139 to 142: the points handed to \<open>ax.plot\<close>.\<close>

definition shock_curve :: "real \<Rightarrow> real list \<Rightarrow> real list \<Rightarrow> real list \<times> real list" where
  "shock_curve nx xsh ysh =
     (if perturbations_Ny = 0 then (map (\<lambda>v. nx * v) xsh, map (\<lambda>v. nx * v) ysh)
      else (map (\<lambda>v. perturbations_Ny * v) xsh, map (\<lambda>v. perturbations_Ny * v) ysh))"

text \<open>Lines 158 to 167: the axis limits and the axis labels.\<close>

definition perturbations_axes ::
  "SingleModeSolution \<Rightarrow> real \<Rightarrow> real \<times> real \<times> real \<times> real \<Rightarrow>
   (real \<times> real) \<times> (real \<times> real) \<times> axis_label" where
  "perturbations_axes sim nx box =
     (case box of (x0, x1, y0, y1) \<Rightarrow>
        if Ny sim = 0 then ((nx * x0, nx * x1), (nx * y0, nx * y1), Nx_label)
        else ((perturbations_Ny * x0, perturbations_Ny * x1),
              (perturbations_Ny * y0, perturbations_Ny * y1), Ny_label))"

section \<open>Helper facts\<close>

lemma and_then_Inr [simp]: "and_then (Inr v) f = f v"
  by (simp add: and_then_def)

lemma and_then_Inl [simp]: "and_then (Inl e) f = Inl e"
  by (simp add: and_then_def)

lemma truediv_nonzero: "b \<noteq> 0 \<Longrightarrow> truediv a b = Inr (a / b)"
  by (simp add: truediv_def)

lemma truediv_zero: "truediv a 0 = Inl ZeroDivisionError"
  by (simp add: truediv_def)

lemma init_stores:
  "SingleModeSolution_init derive nx ny m1 eps gam = Inr sim \<Longrightarrow>
     Nx sim = nx \<and> Ny sim = ny \<and> epsilon_k sim = eps"
  by (auto simp add: SingleModeSolution_init_def split: if_splits)

lemma linspace_length: "length (linspace a b n) = n"
  by (cases n) (simp_all add: linspace_def Let_def)

lemma linspace_nth:
  assumes "1 < n" "i < n"
  shows "linspace a b n ! i = a + real i * ((b - a) / real (n - 1))"
proof (cases "i = n - 1")
  case True
  have "real (n - 1) \<noteq> 0" using assms by simp
  then have "a + real (n - 1) * ((b - a) / real (n - 1)) = b" by simp
  with True assms show ?thesis
    by (simp add: linspace_def Let_def nth_append)
next
  case False
  with assms have lt: "i < n - 1" by simp
  with assms show ?thesis
    by (simp add: linspace_def Let_def nth_append nth_butlast)
qed

lemma convex_between:
  fixes a b s :: real
  assumes "0 \<le> s" "s \<le> 1"
  shows "min a b \<le> a + s * (b - a) \<and> a + s * (b - a) \<le> max a b"
proof -
  define d where "d = s * (b - a)"
  have "min a b \<le> a + d \<and> a + d \<le> max a b"
  proof (cases "a \<le> b")
    case True
    then have "0 \<le> d"
      using assms by (simp add: d_def)
    moreover have "d \<le> b - a"
      using assms True mult_right_mono [of s 1 "b - a"] by (simp add: d_def)
    ultimately show ?thesis using True by simp
  next
    case False
    then have "d \<le> 0"
      using assms by (simp add: d_def mult_nonneg_nonpos)
    moreover have "b - a \<le> d"
      using assms False mult_right_mono_neg [of s 1 "b - a"] by (simp add: d_def)
    ultimately show ?thesis using False by simp
  qed
  then show ?thesis by (simp add: d_def)
qed

lemma linspace_between:
  assumes "1 < n" "i < n"
  shows "min a b \<le> linspace a b n ! i \<and> linspace a b n ! i \<le> max a b"
proof -
  have pos: "0 < real (n - 1)" using assms by simp
  have s0: "0 \<le> real i / real (n - 1)" by simp
  have "real i \<le> real (n - 1)" using assms by simp
  then have s1: "real i / real (n - 1) \<le> 1" using pos by simp
  have "linspace a b n ! i = a + (real i / real (n - 1)) * (b - a)"
    using linspace_nth [OF assms] by simp
  with convex_between [OF s0 s1, of a b] show ?thesis by simp
qed


lemma float_overflow_gt_1: "1 < float_overflow"
  by (simp add: float_overflow_def)


section \<open>The time window of plot\_energy.py\<close>




section \<open>The closed form outside its domain\<close>

text \<open>
  Claim C6, as amended.  When line 86 is evaluated with \<open>M2 >= 1\<close>, the script stops with
  an exception: no displacement and no time are computed and nothing is substituted.  The
  exception is the domain error of \<open>math.sqrt\<close> (a \<open>ValueError\<close>) for \<open>M2 > 1\<close> as long as
  \<open>M2**2\<close> is a float, an \<open>OverflowError\<close> of \<open>M2**2\<close> beyond, and at \<open>M2 = 1\<close>, where
  the square root is defined and zero, the \<open>ZeroDivisionError\<close> of the division.  The
  exception of \<open>max_delta_xs\<close> is the outcome of the time computation too.
\<close>

theorem closed_form_raises_when_not_subsonic:
  assumes lw: "longwavelength sim" and nx0: "Nx sim = 0" and sup: "1 \<le> M2 sim"
  shows "max_delta_xs sim
           = Inl (if M2 sim = 1 then ZeroDivisionError
                  else if float_overflow \<le> M2 sim ^ 2 then OverflowError else ValueError)
       \<and> energy_t sim x1
           = Inl (if M2 sim = 1 then ZeroDivisionError
                  else if float_overflow \<le> M2 sim ^ 2 then OverflowError else ValueError)"
proof -
  define e where "e = (if M2 sim = 1 then ZeroDivisionError
                  else if float_overflow \<le> M2 sim ^ 2 then OverflowError else ValueError)"
  have m: "max_delta_xs sim = Inl e"
  proof (cases "M2 sim = 1")
    case True
    have "float_pow2 1 = Inr 1"
      using float_overflow_gt_1 by (simp add: float_pow2_def)
    with True show ?thesis
      using lw nx0 by (simp add: max_delta_xs_def math_sqrt_def truediv_zero e_def)
  next
    case False
    with sup have "1 < M2 sim" by simp
    then have gt: "1 < M2 sim ^ 2" by (simp add: power2_eq_square less_1_mult)
    show ?thesis
    proof (cases "float_overflow \<le> M2 sim ^ 2")
      case True
      with False show ?thesis
        using lw nx0 by (simp add: max_delta_xs_def float_pow2_def e_def)
    next
      case no: False
      with False gt show ?thesis
        using lw nx0 by (simp add: max_delta_xs_def float_pow2_def math_sqrt_def e_def)
    qed
  qed
  then have "energy_t sim x1 = Inl e" by (simp add: energy_t_def)
  with m show ?thesis unfolding e_def by simp
qed

theorem closed_form_raises_when_not_subsonic_witness:
  "let sim = \<lparr>Nx = 0, Ny = 20, epsilon_k = 1 / 10, R = 2, M2 = 3 / 2, a2 = 1, rho1 = 1,
              Lx = 1, Ly = 1, ky = 1, omega = 1, phi = 0, longwavelength = True,
              delta_xs = (\<lambda>t y. 0)\<rparr>;
       sonic = sim\<lparr>M2 := 1\<rparr>;
       huge = sim\<lparr>M2 := 2 ^ 600\<rparr>
   in longwavelength sim \<and> Nx sim = 0 \<and> 1 \<le> M2 sim
      \<and> max_delta_xs sim = Inl ValueError \<and> energy_t sim 1 = Inl ValueError
      \<and> longwavelength sonic \<and> Nx sonic = 0 \<and> 1 \<le> M2 sonic
      \<and> max_delta_xs sonic = Inl ZeroDivisionError
      \<and> energy_t sonic 1 = Inl ZeroDivisionError
      \<and> longwavelength huge \<and> Nx huge = 0 \<and> 1 \<le> M2 huge
      \<and> max_delta_xs huge = Inl OverflowError
      \<and> energy_t huge 1 = Inl OverflowError"
proof -
  define sim where "sim = \<lparr>Nx = 0, Ny = 20, epsilon_k = 1 / 10, R = 2, M2 = 3 / 2, a2 = 1,
              rho1 = 1, Lx = 1, Ly = 1, ky = 1, omega = 1, phi = 0, longwavelength = True,
              delta_xs = (\<lambda>(t::real) (y::real option). (0::complex))\<rparr>"
  define sonic where "sonic = sim\<lparr>M2 := 1\<rparr>"
  define huge where "huge = sim\<lparr>M2 := 2 ^ 600\<rparr>"
  have big: "float_overflow \<le> (2 ^ 600 :: real) ^ 2"
    by (simp add: float_overflow_def)
  have small: "\<not> float_overflow \<le> (3 / 2 :: real) ^ 2"
    by (simp add: float_overflow_def power2_eq_square)
  have h1: "longwavelength sim" and h2: "Nx sim = 0" and h3: "1 \<le> M2 sim"
    and ne: "M2 sim \<noteq> 1" and msim: "M2 sim = 3 / 2"
    by (simp_all add: sim_def)
  have g1: "longwavelength sonic" and g2: "Nx sonic = 0" and g3: "1 \<le> M2 sonic"
    and eq: "M2 sonic = 1"
    by (simp_all add: sonic_def sim_def)
  have k1: "longwavelength huge" and k2: "Nx huge = 0" and mhuge: "M2 huge = 2 ^ 600"
    by (simp_all add: huge_def sim_def)
  have k3: "1 \<le> M2 huge" unfolding mhuge by simp
  have kne: "M2 huge \<noteq> 1" unfolding mhuge by simp
  from closed_form_raises_when_not_subsonic [OF h1 h2 h3, of 1] ne small
  have a: "max_delta_xs sim = Inl ValueError \<and> energy_t sim 1 = Inl ValueError"
    unfolding msim by simp
  from closed_form_raises_when_not_subsonic [OF g1 g2 g3, of 1] eq
  have b: "max_delta_xs sonic = Inl ZeroDivisionError
         \<and> energy_t sonic 1 = Inl ZeroDivisionError"
    by simp
  from closed_form_raises_when_not_subsonic [OF k1 k2 k3, of 1] kne big
  have c: "max_delta_xs huge = Inl OverflowError \<and> energy_t huge 1 = Inl OverflowError"
    unfolding mhuge by simp
  from a b c h1 h2 h3 g1 g2 g3 k1 k2 k3
  have "longwavelength sim \<and> Nx sim = 0 \<and> 1 \<le> M2 sim
      \<and> max_delta_xs sim = Inl ValueError \<and> energy_t sim 1 = Inl ValueError
      \<and> longwavelength sonic \<and> Nx sonic = 0 \<and> 1 \<le> M2 sonic
      \<and> max_delta_xs sonic = Inl ZeroDivisionError
      \<and> energy_t sonic 1 = Inl ZeroDivisionError
      \<and> longwavelength huge \<and> Nx huge = 0 \<and> 1 \<le> M2 huge
      \<and> max_delta_xs huge = Inl OverflowError
      \<and> energy_t huge 1 = Inl OverflowError"
    by blast
  then show ?thesis unfolding huge_def sonic_def sim_def Let_def .
qed

text \<open>
  The claim as it was stated names a domain error for every \<open>M2 >= 1\<close>.  At \<open>M2 = 1\<close>
  the argument of the square root is zero, inside the domain, and the square root is
  computed; what stops the script is the division by zero.
\<close>

theorem closed_form_raises_when_not_subsonic_counterexample:
  "math_sqrt (1 - 1 ^ 2) = Inr 0
   \<and> max_delta_xs \<lparr>Nx = 0, Ny = 20, epsilon_k = 1 / 10, R = 2, M2 = 1, a2 = 1, rho1 = 1,
       Lx = 1, Ly = 1, ky = 1, omega = 1, phi = 0, longwavelength = True,
       delta_xs = (\<lambda>t y. 0)\<rparr> = Inl ZeroDivisionError
   \<and> max_delta_xs \<lparr>Nx = 0, Ny = 20, epsilon_k = 1 / 10, R = 2, M2 = 1, a2 = 1, rho1 = 1,
       Lx = 1, Ly = 1, ky = 1, omega = 1, phi = 0, longwavelength = True,
       delta_xs = (\<lambda>t y. 0)\<rparr> \<noteq> Inl ValueError"
proof -
  have p: "float_pow2 1 = Inr 1"
    using float_overflow_gt_1 by (simp add: float_pow2_def)
  show ?thesis
    by (simp add: max_delta_xs_def p math_sqrt_def truediv_def)
qed

section \<open>Construction\<close>

text \<open>
  Claim C5.  Construction reports a configuration error exactly when \<open>M1 <= 1\<close>, or both
  mode numbers are zero, or \<open>gamma <= 1\<close>; the error carries no derived constant.  On
  every other input construction succeeds, and the object holds the mode numbers and the
  amplitude it was given.
\<close>

theorem construction_error_iff:
  "(SingleModeSolution_init derive nx ny m1 eps gam = Inl ConfigurationError)
     = (m1 \<le> 1 \<or> (nx = 0 \<and> ny = 0) \<or> gam \<le> 1)
   \<and> (\<exists>sim. SingleModeSolution_init derive nx ny m1 eps gam = Inr sim
          \<and> Nx sim = nx \<and> Ny sim = ny \<and> epsilon_k sim = eps)
     = (\<not> (m1 \<le> 1 \<or> (nx = 0 \<and> ny = 0) \<or> gam \<le> 1))"
  by (simp add: SingleModeSolution_init_def)

theorem construction_error_iff_witness:
  "let derive = (\<lambda>nx ny m1 eps gam.
         \<lparr>Nx = 0, Ny = 0, epsilon_k = 0, R = 2, M2 = 3 / 5, a2 = 1, rho1 = 1,
          Lx = 1, Ly = 1, ky = 1, omega = 1, phi = 0, longwavelength = True,
          delta_xs = (\<lambda>t y. 0)\<rparr>)
   in SingleModeSolution_init derive 0 0 (7 / 4) (1 / 10) (5 / 3) = Inl ConfigurationError
      \<and> SingleModeSolution_init derive 0 20 1 (1 / 10) (5 / 3) = Inl ConfigurationError
      \<and> SingleModeSolution_init derive 0 20 (7 / 4) (1 / 10) 1 = Inl ConfigurationError
      \<and> (\<exists>sim. SingleModeSolution_init derive 0 20 (7 / 4) (1 / 10) (5 / 3) = Inr sim
             \<and> Nx sim = 0 \<and> Ny sim = 20 \<and> epsilon_k sim = 1 / 10)"
proof -
  define derive where "derive = (\<lambda>(nx::real) (ny::real) (m1::real) (eps::real) (gam::real).
         \<lparr>Nx = 0, Ny = 0, epsilon_k = 0, R = 2, M2 = 3 / 5, a2 = 1, rho1 = 1,
          Lx = 1, Ly = 1, ky = 1, omega = 1, phi = 0, longwavelength = True,
          delta_xs = (\<lambda>(t::real) (y::real option). (0::complex))\<rparr>)"
  have "SingleModeSolution_init derive 0 0 (7 / 4) (1 / 10) (5 / 3) = Inl ConfigurationError"
    using construction_error_iff [of derive 0 0 "7 / 4" "1 / 10" "5 / 3"] by simp
  moreover
  have "SingleModeSolution_init derive 0 20 1 (1 / 10) (5 / 3) = Inl ConfigurationError"
    using construction_error_iff [of derive 0 20 1 "1 / 10" "5 / 3"] by simp
  moreover
  have "SingleModeSolution_init derive 0 20 (7 / 4) (1 / 10) 1 = Inl ConfigurationError"
    using construction_error_iff [of derive 0 20 "7 / 4" "1 / 10" 1] by simp
  moreover
  have "\<exists>sim. SingleModeSolution_init derive 0 20 (7 / 4) (1 / 10) (5 / 3) = Inr sim
             \<and> Nx sim = 0 \<and> Ny sim = 20 \<and> epsilon_k sim = 1 / 10"
    using construction_error_iff [of derive 0 20 "7 / 4" "1 / 10" "5 / 3"] by simp
  ultimately show ?thesis unfolding derive_def Let_def by blast
qed

section \<open>The shock curve of plot\_perturbations.py\<close>

text \<open>
  Claim C9.  The time of \<open>plot_perturbations.py\<close> puts the unperturbed shock front
  \<open>M2 * a2 * t\<close> at two thirds of \<open>x1\<close>, and the curve drawn for the shock has, at each
  of the 100 samples \<open>y\<close> between \<open>y0\<close> and \<open>y1\<close>, the abscissa
  \<open>(2/3) * x1 + Re(delta_xs(t, y))\<close>.  The division by the shock speed is defined for
  \<open>M2 * a2 \<noteq> 0\<close>.
\<close>

theorem shock_curve_two_thirds:
  assumes nz: "M2 sim * a2 sim \<noteq> 0"
  shows "\<exists>t. perturbations_t sim x1 = Inr t
           \<and> M2 sim * a2 sim * t = (2 / 3) * x1
           \<and> length (y_shock y0 y1) = 100
           \<and> length (x_shock sim (perturbations_xs x1) t (y_shock y0 y1)) = 100
           \<and> y_shock y0 y1 ! 0 = y0 \<and> y_shock y0 y1 ! 99 = y1
           \<and> (\<forall>i<100. min y0 y1 \<le> y_shock y0 y1 ! i \<and> y_shock y0 y1 ! i \<le> max y0 y1
                \<and> x_shock sim (perturbations_xs x1) t (y_shock y0 y1) ! i
                    = (2 / 3) * x1 + Re (delta_xs sim t (Some (y_shock y0 y1 ! i))))"
proof -
  define t where "t = perturbations_xs x1 / (M2 sim * a2 sim)"
  have t_eq: "perturbations_t sim x1 = Inr t"
    using nz by (simp add: perturbations_t_def t_def truediv_nonzero)
  have pos: "M2 sim * a2 sim * t = (2 / 3) * x1"
    using nz by (simp add: t_def perturbations_xs_def)
  have len: "length (y_shock y0 y1) = 100"
    by (simp add: y_shock_def linspace_length)
  have lenx: "length (x_shock sim (perturbations_xs x1) t (y_shock y0 y1)) = 100"
    by (simp add: x_shock_def len)
  have first: "y_shock y0 y1 ! 0 = y0"
    using linspace_nth [of 100 0 y0 y1] by (simp add: y_shock_def)
  have last: "y_shock y0 y1 ! 99 = y1"
    using linspace_nth [of 100 99 y0 y1] by (simp add: y_shock_def diff_divide_distrib)
  have each: "\<forall>i<100. min y0 y1 \<le> y_shock y0 y1 ! i \<and> y_shock y0 y1 ! i \<le> max y0 y1
                \<and> x_shock sim (perturbations_xs x1) t (y_shock y0 y1) ! i
                    = (2 / 3) * x1 + Re (delta_xs sim t (Some (y_shock y0 y1 ! i)))"
  proof (intro allI impI)
    fix i :: nat
    assume i: "i < 100"
    have btw: "min y0 y1 \<le> y_shock y0 y1 ! i \<and> y_shock y0 y1 ! i \<le> max y0 y1"
      using linspace_between [of 100 i y0 y1] i by (simp add: y_shock_def)
    have "x_shock sim (perturbations_xs x1) t (y_shock y0 y1) ! i
            = (2 / 3) * x1 + Re (delta_xs sim t (Some (y_shock y0 y1 ! i)))"
      using i len by (simp add: x_shock_def perturbations_xs_def)
    with btw show "min y0 y1 \<le> y_shock y0 y1 ! i \<and> y_shock y0 y1 ! i \<le> max y0 y1
                \<and> x_shock sim (perturbations_xs x1) t (y_shock y0 y1) ! i
                    = (2 / 3) * x1 + Re (delta_xs sim t (Some (y_shock y0 y1 ! i)))"
      by simp
  qed
  from t_eq pos len lenx first last each show ?thesis by blast
qed

theorem shock_curve_two_thirds_witness:
  "let sim = \<lparr>Nx = 4, Ny = 20, epsilon_k = 1 / 10, R = 2, M2 = 3 / 5, a2 = 1, rho1 = 1,
              Lx = 1, Ly = 1, ky = 1, omega = 1, phi = 0, longwavelength = False,
              delta_xs = (\<lambda>t y. Complex (case y of None \<Rightarrow> 0 | Some v \<Rightarrow> v / 100) t)\<rparr>
   in M2 sim * a2 sim \<noteq> 0
      \<and> perturbations_t sim 3 = Inr (10 / 3)
      \<and> M2 sim * a2 sim * (10 / 3) = (2 / 3) * 3
      \<and> y_shock 0 99 ! 99 = 99
      \<and> x_shock sim (perturbations_xs 3) (10 / 3) (y_shock 0 99) ! 99 = 299 / 100"
proof -
  define sim where "sim = \<lparr>Nx = 4, Ny = 20, epsilon_k = 1 / 10, R = 2, M2 = 3 / 5, a2 = 1,
              rho1 = 1, Lx = 1, Ly = 1, ky = 1, omega = 1, phi = 0, longwavelength = False,
              delta_xs = (\<lambda>(t::real) y.
                 Complex (case y of None \<Rightarrow> 0 | Some v \<Rightarrow> v / 100) t)\<rparr>"
  have h: "M2 sim * a2 sim \<noteq> 0" by (simp add: sim_def)
  from shock_curve_two_thirds [OF h, of 3 0 99]
  obtain t where t1: "perturbations_t sim 3 = Inr t"
    and t2: "M2 sim * a2 sim * t = (2 / 3) * 3"
    and y99: "y_shock 0 99 ! 99 = 99"
    and each: "\<forall>i<100. min 0 99 \<le> y_shock 0 99 ! i \<and> y_shock 0 99 ! i \<le> max 0 99
                \<and> x_shock sim (perturbations_xs 3) t (y_shock 0 99) ! i
                    = (2 / 3) * 3 + Re (delta_xs sim t (Some (y_shock 0 99 ! i)))"
    by blast
  have t: "t = 10 / 3" using t2 by (simp add: sim_def)
  have "x_shock sim (perturbations_xs 3) t (y_shock 0 99) ! 99
          = (2 / 3) * 3 + Re (delta_xs sim t (Some (y_shock 0 99 ! 99)))"
    using each by simp
  then have x99: "x_shock sim (perturbations_xs 3) (10 / 3) (y_shock 0 99) ! 99 = 299 / 100"
    unfolding y99 t by (simp add: sim_def)
  from h t1 t2 y99 x99 have "M2 sim * a2 sim \<noteq> 0
      \<and> perturbations_t sim 3 = Inr (10 / 3)
      \<and> M2 sim * a2 sim * (10 / 3) = (2 / 3) * 3
      \<and> y_shock 0 99 ! 99 = 99
      \<and> x_shock sim (perturbations_xs 3) (10 / 3) (y_shock 0 99) ! 99 = 299 / 100"
    unfolding t by simp
  then show ?thesis unfolding sim_def Let_def .
qed

section \<open>The mode number the plots are normalised by\<close>

text \<open>
  Claim C10.  Both scripts fix \<open>Ny = 20\<close>, so in every iteration no test \<open>Ny == 0\<close>
  succeeds, neither on the script's own \<open>Ny\<close> nor on the object's: the plot domain is
  \<open>[0, 2*Lx/Ny] x [0, 2*Ly/Ny]\<close>, and the contour grid, the shock curve, the axis limits
  and the axis labels are scaled by \<open>Ny\<close>.  An iteration whose construction fails reaches
  none of the tests.
\<close>

theorem Ny_branches_unreachable:
  assumes e: "SingleModeSolution_init derive nx energy_Ny m1 energy_epsilon_k energy_gamma = Inr sim"
      and p: "SingleModeSolution_init derive' nx' perturbations_Ny m1' perturbations_epsilon_k
                perturbations_gamma = Inr sim'"
  shows "energy_Ny \<noteq> 0 \<and> Ny sim \<noteq> 0
       \<and> energy_domain sim nx = Inr (0, 2 * Lx sim / energy_Ny, 0, 2 * Ly sim / energy_Ny)
       \<and> energy_contour_scale nx = energy_Ny
       \<and> energy_axes sim nx (x0, x1, y0, y1)
           = ((energy_Ny * x0, energy_Ny * x1), (energy_Ny * y0, energy_Ny * y1), Ny_label)
       \<and> perturbations_Ny \<noteq> 0 \<and> Ny sim' \<noteq> 0
       \<and> perturbations_domain sim' nx'
           = Inr (0, 2 * Lx sim' / perturbations_Ny, 0, 2 * Ly sim' / perturbations_Ny)
       \<and> perturbations_contour_scale nx' = perturbations_Ny
       \<and> shock_curve nx' xsh ysh
           = (map (\<lambda>v. perturbations_Ny * v) xsh, map (\<lambda>v. perturbations_Ny * v) ysh)
       \<and> perturbations_axes sim' nx' (x0, x1, y0, y1)
           = ((perturbations_Ny * x0, perturbations_Ny * x1),
              (perturbations_Ny * y0, perturbations_Ny * y1), Ny_label)"
proof -
  have a: "Ny sim = energy_Ny" using init_stores [OF e] by simp
  have b: "Ny sim' = perturbations_Ny" using init_stores [OF p] by simp
  have e0: "energy_Ny \<noteq> 0" by (simp add: energy_Ny_def)
  have p0: "perturbations_Ny \<noteq> 0" by (simp add: perturbations_Ny_def)
  show ?thesis
    using e0 p0
    by (simp add: a b energy_domain_def energy_contour_scale_def energy_axes_def
        perturbations_domain_def perturbations_contour_scale_def shock_curve_def
        perturbations_axes_def truediv_nonzero)
qed

theorem Ny_branches_unreachable_witness:
  "let derive = (\<lambda>nx ny m1 eps gam.
         \<lparr>Nx = 0, Ny = 0, epsilon_k = 0, R = 2, M2 = 3 / 5, a2 = 1, rho1 = 1,
          Lx = 3, Ly = 5, ky = 1, omega = 1, phi = 0, longwavelength = True,
          delta_xs = (\<lambda>t y. 0)\<rparr>);
       sim = \<lparr>Nx = 4, Ny = 20, epsilon_k = 1 / 10, R = 2, M2 = 3 / 5, a2 = 1, rho1 = 1,
          Lx = 3, Ly = 5, ky = 1, omega = 1, phi = 0, longwavelength = True,
          delta_xs = (\<lambda>t y. 0)\<rparr>
   in SingleModeSolution_init derive 4 energy_Ny (7 / 4) energy_epsilon_k energy_gamma = Inr sim
      \<and> SingleModeSolution_init derive 4 perturbations_Ny (7 / 4) perturbations_epsilon_k
            perturbations_gamma = Inr sim
      \<and> energy_domain sim 4 = Inr (0, 3 / 10, 0, 1 / 2)
      \<and> energy_contour_scale 4 = 20
      \<and> energy_axes sim 4 (0, 3 / 10, 0, 1 / 2) = ((0, 6), (0, 10), Ny_label)
      \<and> perturbations_domain sim 4 = Inr (0, 3 / 10, 0, 1 / 2)
      \<and> perturbations_contour_scale 4 = 20
      \<and> shock_curve 4 [1 / 5] [1 / 2] = ([4], [10])
      \<and> perturbations_axes sim 4 (0, 3 / 10, 0, 1 / 2) = ((0, 6), (0, 10), Ny_label)"
proof -
  define derive where "derive = (\<lambda>(nx::real) (ny::real) (m1::real) (eps::real) (gam::real).
         \<lparr>Nx = 0, Ny = 0, epsilon_k = 0, R = 2, M2 = 3 / 5, a2 = 1, rho1 = 1,
          Lx = 3, Ly = 5, ky = 1, omega = 1, phi = 0, longwavelength = True,
          delta_xs = (\<lambda>(t::real) (y::real option). (0::complex))\<rparr>)"
  define sim where "sim = \<lparr>Nx = 4, Ny = 20, epsilon_k = 1 / 10, R = 2, M2 = 3 / 5, a2 = 1,
          rho1 = 1, Lx = 3, Ly = 5, ky = 1, omega = 1, phi = 0, longwavelength = True,
          delta_xs = (\<lambda>(t::real) (y::real option). (0::complex))\<rparr>"
  have e: "SingleModeSolution_init derive 4 energy_Ny (7 / 4) energy_epsilon_k energy_gamma
             = Inr sim"
    by (simp add: SingleModeSolution_init_def derive_def sim_def energy_Ny_def
        energy_epsilon_k_def energy_gamma_def)
  have p: "SingleModeSolution_init derive 4 perturbations_Ny (7 / 4) perturbations_epsilon_k
             perturbations_gamma = Inr sim"
    by (simp add: SingleModeSolution_init_def derive_def sim_def perturbations_Ny_def
        perturbations_epsilon_k_def perturbations_gamma_def)
  have lx: "Lx sim = 3" and ly: "Ly sim = 5" by (simp_all add: sim_def)
  from Ny_branches_unreachable [OF e p, of 0 "3 / 10" 0 "1 / 2" "[1 / 5]" "[1 / 2]"] e p
  have "SingleModeSolution_init derive 4 energy_Ny (7 / 4) energy_epsilon_k energy_gamma = Inr sim
      \<and> SingleModeSolution_init derive 4 perturbations_Ny (7 / 4) perturbations_epsilon_k
            perturbations_gamma = Inr sim
      \<and> energy_domain sim 4 = Inr (0, 3 / 10, 0, 1 / 2)
      \<and> energy_contour_scale 4 = 20
      \<and> energy_axes sim 4 (0, 3 / 10, 0, 1 / 2) = ((0, 6), (0, 10), Ny_label)
      \<and> perturbations_domain sim 4 = Inr (0, 3 / 10, 0, 1 / 2)
      \<and> perturbations_contour_scale 4 = 20
      \<and> shock_curve 4 [1 / 5] [1 / 2] = ([4], [10])
      \<and> perturbations_axes sim 4 (0, 3 / 10, 0, 1 / 2) = ((0, 6), (0, 10), Ny_label)"
    by (simp add: lx ly energy_Ny_def perturbations_Ny_def)
  then show ?thesis unfolding derive_def sim_def Let_def .
qed

end
